theory Spec2Isabelle
  imports Complex_Main "HOL-Library.Word"
begin

section \<open>JavaScript values\<close>

text \<open>
  The program is one JavaScript module, \<^verbatim>\<open>src/index.js\<close>: an AWS Lambda handler that
  is triggered by an SNS notification, asks a DynamoDB table whether a verification email
  was already sent, sends one through SES and records it in the table.

  A JavaScript string is a sequence of UTF-16 code units. Literals of the source are
  ASCII and are written with \<open>lit\<close>.
\<close>

type_synonym jsstring = "16 word list"

definition lit :: "string \<Rightarrow> jsstring" where
  "lit s = map (\<lambda>c. of_nat (of_char c)) s"

text \<open>
  The exceptions that can reach the handler: the built-in errors of the language and the
  errors with which a call to an AWS service rejects (named by the service).
\<close>

datatype js_error = TypeError | SyntaxError | URIError | ServiceError jsstring

text \<open>
  The values that the Lambda runtime and \<^verbatim>\<open>JSON.parse\<close> produce. An object is the list of
  its own properties; the first binding of a key is the one that counts. A number is an
  IEEE double, of which the program uses nothing but its rendering as a string.
\<close>

datatype jsval =
    JUndefined
  | JNull
  | JBool bool
  | JNum real
  | JStr jsstring
  | JArr "jsval list"
  | JObj "(jsstring \<times> jsval) list"

text \<open>Sequencing of computations that may throw.\<close>

definition bindE :: "js_error + 'a \<Rightarrow> ('a \<Rightarrow> js_error + 'b) \<Rightarrow> js_error + 'b" where
  "bindE m f = (case m of Inl e \<Rightarrow> Inl e | Inr x \<Rightarrow> f x)"

subsection \<open>Property access\<close>

text \<open>
  \<^verbatim>\<open>v.name\<close> for a property name that no built-in prototype defines (the program reads
  \<^verbatim>\<open>Records\<close>, \<^verbatim>\<open>Sns\<close>, \<^verbatim>\<open>Message\<close>, \<^verbatim>\<open>email\<close>, \<^verbatim>\<open>firstName\<close> and \<^verbatim>\<open>lastName\<close>): reading
  a property of \<^verbatim>\<open>undefined\<close> or \<^verbatim>\<open>null\<close> throws a TypeError, an object yields its own
  property or \<^verbatim>\<open>undefined\<close>, every other value yields \<^verbatim>\<open>undefined\<close>.
\<close>

fun Get :: "jsval \<Rightarrow> jsstring \<Rightarrow> js_error + jsval" where
  "Get JUndefined k = Inl TypeError"
| "Get JNull k = Inl TypeError"
| "Get (JObj kvs) k = Inr (case map_of kvs k of None \<Rightarrow> JUndefined | Some v \<Rightarrow> v)"
| "Get v k = Inr JUndefined"

text \<open>The decimal rendering of a natural number, which is the property key of an index.\<close>

fun decimal :: "nat \<Rightarrow> jsstring" where
  "decimal n = (if n < 10 then [of_nat (48 + n)]
                else decimal (n div 10) @ [of_nat (48 + n mod 10)])"

declare decimal.simps [simp del]

text \<open>
  \<^verbatim>\<open>v[i]\<close> for an index \<open>i\<close>: an array yields its element, a string the one-unit
  string at that position, an object its property named by the decimal index; out of range
  the result is \<^verbatim>\<open>undefined\<close>.
\<close>

fun GetIndex :: "jsval \<Rightarrow> nat \<Rightarrow> js_error + jsval" where
  "GetIndex JUndefined i = Inl TypeError"
| "GetIndex JNull i = Inl TypeError"
| "GetIndex (JArr xs) i = Inr (if i < length xs then xs ! i else JUndefined)"
| "GetIndex (JStr s) i = Inr (if i < length s then JStr [s ! i] else JUndefined)"
| "GetIndex (JObj kvs) i =
     Inr (case map_of kvs (decimal i) of None \<Rightarrow> JUndefined | Some v \<Rightarrow> v)"
| "GetIndex v i = Inr JUndefined"

subsection \<open>Conversion to a string\<close>

text \<open>
  \<open>join_results\<close> concatenates the renderings of the elements of an array, separated by
  commas, and stops at the first element whose rendering throws.
\<close>

fun join_results :: "(js_error + jsstring) list \<Rightarrow> js_error + jsstring" where
  "join_results [] = Inr []"
| "join_results [r] = r"
| "join_results (r # rs) =
     bindE r (\<lambda>s. bindE (join_results rs) (\<lambda>t. Inr (s @ lit '','' @ t)))"

text \<open>
  The abstract operation ToString, applied by template literals, by \<^verbatim>\<open>JSON.parse\<close> and
  by \<^verbatim>\<open>encodeURIComponent\<close> to their argument. The rendering of a number is the
  runtime's (\<open>nts\<close>). An array is rendered by \<^verbatim>\<open>Array.prototype.join\<close>, in which
  \<^verbatim>\<open>undefined\<close> and \<^verbatim>\<open>null\<close> elements are empty. A plain object is rendered by
  \<^verbatim>\<open>Object.prototype.toString\<close>, unless an own property \<^verbatim>\<open>toString\<close> shadows it: a value
  parsed from JSON is never callable, and then the conversion throws a TypeError.
\<close>

fun ToString :: "(real \<Rightarrow> jsstring) \<Rightarrow> jsval \<Rightarrow> js_error + jsstring" where
  "ToString nts JUndefined = Inr (lit ''undefined'')"
| "ToString nts JNull = Inr (lit ''null'')"
| "ToString nts (JBool b) = Inr (if b then lit ''true'' else lit ''false'')"
| "ToString nts (JNum x) = Inr (nts x)"
| "ToString nts (JStr s) = Inr s"
| "ToString nts (JArr xs) =
     join_results
       (map (\<lambda>x. if x = JUndefined \<or> x = JNull then Inr [] else ToString nts x) xs)"
| "ToString nts (JObj kvs) =
     (if map_of kvs (lit ''toString'') = None then Inr (lit ''[object Object]'')
      else Inl TypeError)"

subsection \<open>encodeURIComponent\<close>

text \<open>
  The characters that \<^verbatim>\<open>encodeURIComponent\<close> leaves as they are: the ASCII letters and
  digits and \<^verbatim>\<open>- _ . ! ~ * ' ( )\<close>.
\<close>

definition unreserved :: "16 word \<Rightarrow> bool" where
  "unreserved c \<longleftrightarrow>
     (0x41 \<le> c \<and> c \<le> 0x5A) \<or> (0x61 \<le> c \<and> c \<le> 0x7A) \<or> (0x30 \<le> c \<and> c \<le> 0x39) \<or>
     c \<in> {0x2D, 0x5F, 0x2E, 0x21, 0x7E, 0x2A, 0x27, 0x28, 0x29}"

definition hex_digit :: "nat \<Rightarrow> 16 word" where
  "hex_digit n = (if n < 10 then of_nat (48 + n) else of_nat (55 + n))"

text \<open>One octet, escaped: a percent sign and two upper-case hexadecimal digits.\<close>

definition percent :: "nat \<Rightarrow> jsstring" where
  "percent b = [0x25, hex_digit (b div 16 mod 16), hex_digit (b mod 16)]"

text \<open>The octets of the UTF-8 encoding of a code point.\<close>

definition utf8 :: "nat \<Rightarrow> nat list" where
  "utf8 cp =
     (if cp < 0x80 then [cp]
      else if cp < 0x800 then [0xC0 + cp div 64, 0x80 + cp mod 64]
      else if cp < 0x10000 then
        [0xE0 + cp div 4096, 0x80 + cp div 64 mod 64, 0x80 + cp mod 64]
      else
        [0xF0 + cp div 262144 mod 8, 0x80 + cp div 4096 mod 64,
         0x80 + cp div 64 mod 64, 0x80 + cp mod 64])"

definition escape :: "nat \<Rightarrow> jsstring" where
  "escape cp = concat (map percent (utf8 cp))"

definition lead_surrogate :: "16 word \<Rightarrow> bool" where
  "lead_surrogate c \<longleftrightarrow> 0xD800 \<le> c \<and> c \<le> 0xDBFF"

definition trail_surrogate :: "16 word \<Rightarrow> bool" where
  "trail_surrogate c \<longleftrightarrow> 0xDC00 \<le> c \<and> c \<le> 0xDFFF"

text \<open>
  The abstract operation Encode: unreserved characters are copied, every other code point
  is written in UTF-8 and escaped octet by octet. A surrogate that is not half of a
  well-formed pair throws a URIError.
\<close>

fun Encode :: "jsstring \<Rightarrow> js_error + jsstring" where
  "Encode [] = Inr []"
| "Encode (c # cs) =
     (if unreserved c then bindE (Encode cs) (\<lambda>r. Inr (c # r))
      else if trail_surrogate c then Inl URIError
      else if lead_surrogate c then
        (case cs of
           [] \<Rightarrow> Inl URIError
         | d # ds \<Rightarrow>
             if trail_surrogate d then
               bindE (Encode ds)
                 (\<lambda>r. Inr (escape ((unat c - 0xD800) * 0x400 + (unat d - 0xDC00) + 0x10000) @ r))
             else Inl URIError)
      else bindE (Encode cs) (\<lambda>r. Inr (escape (unat c) @ r)))"

definition encodeURIComponent :: "(real \<Rightarrow> jsstring) \<Rightarrow> jsval \<Rightarrow> js_error + jsstring" where
  "encodeURIComponent nts v = bindE (ToString nts v) Encode"

subsection \<open>Dates\<close>

text \<open>A natural number in decimal, padded with zeros on the left to a width.\<close>

definition pad :: "nat \<Rightarrow> nat \<Rightarrow> jsstring" where
  "pad width n = replicate (width - length (decimal n)) 0x30 @ decimal n"

text \<open>
  \<^verbatim>\<open>Date.prototype.toISOString\<close> of a time value (milliseconds since the epoch, UTC):
  \<^verbatim>\<open>YYYY-MM-DDTHH:mm:ss.sssZ\<close>, the year with a sign and six digits outside
  \<open>0 .. 9999\<close>. The date of a day number is computed in the proleptic Gregorian calendar,
  in years that start in March. The program applies it to \<^verbatim>\<open>new Date()\<close>, whose time
  value is a reading of the clock and therefore valid.
\<close>

definition Date_toISOString :: "int \<Rightarrow> jsstring" where
  "Date_toISOString t =
     (let day = t div 86400000;
          ms = t mod 86400000;
          z = day + 719468;
          era = z div 146097;
          doe = z mod 146097;
          yoe = (doe - doe div 1460 + doe div 36524 - doe div 146096) div 365;
          doy = doe - (365 * yoe + yoe div 4 - yoe div 100);
          mp = (5 * doy + 2) div 153;
          d = doy - (153 * mp + 2) div 5 + 1;
          m = (if mp < 10 then mp + 3 else mp - 9);
          y = yoe + era * 400 + (if m \<le> 2 then 1 else 0);
          year = (if 0 \<le> y \<and> y \<le> 9999 then pad 4 (nat y)
                  else (if y < 0 then lit ''-'' else lit ''+'') @ pad 6 (nat \<bar>y\<bar>))
      in year @ lit ''-'' @ pad 2 (nat m) @ lit ''-'' @ pad 2 (nat d) @ lit ''T'' @
         pad 2 (nat (ms div 3600000)) @ lit '':'' @ pad 2 (nat (ms div 60000 mod 60)) @
         lit '':'' @ pad 2 (nat (ms div 1000 mod 60)) @ lit ''.'' @ pad 3 (nat (ms mod 1000)) @
         lit ''Z'')"

section \<open>The environment of the function\<close>

subsection \<open>Configuration\<close>

text \<open>
  The variables of \<^verbatim>\<open>process.env\<close> that the module reads when it is loaded; \<open>None\<close> is
  a variable that is not set. (\<^verbatim>\<open>AWS_REGION\<close> only selects the region of the two service
  clients, which are part of the world below.)
\<close>

record process_env =
  env_DOMAIN :: "jsstring option"
  env_SES_FROM_EMAIL :: "jsstring option"
  env_DYNAMODB_TABLE :: "jsstring option"

text \<open>\<^verbatim>\<open>process.env.X || d\<close>: the default replaces a variable that is unset or empty.\<close>

definition or_default :: "jsstring option \<Rightarrow> jsstring \<Rightarrow> jsstring" where
  "or_default v d = (case v of None \<Rightarrow> d | Some s \<Rightarrow> if s = [] then d else s)"

definition DOMAIN :: "process_env \<Rightarrow> jsstring" where
  "DOMAIN env = or_default (env_DOMAIN env) (lit ''dev.ritimoradiya.me'')"

definition FROM_EMAIL :: "process_env \<Rightarrow> jsstring" where
  "FROM_EMAIL env = or_default (env_SES_FROM_EMAIL env) (lit ''noreply@ritimoradiya.me'')"

definition DYNAMODB_TABLE :: "process_env \<Rightarrow> jsstring" where
  "DYNAMODB_TABLE env = or_default (env_DYNAMODB_TABLE env) (lit ''EmailVerificationTracking'')"

subsection \<open>The language runtime\<close>

text \<open>
  Two functions of the JavaScript runtime are parameters of the model: \<^verbatim>\<open>JSON.parse\<close> on
  a text, and the rendering of a number as a string.
\<close>

record runtime =
  JSON_parse :: "jsstring \<Rightarrow> js_error + jsval"
  Number_toString :: "real \<Rightarrow> jsstring"

subsection \<open>Commands and the world\<close>

text \<open>The item that \<^verbatim>\<open>trackEmailSent\<close> writes, and the parameters of the three commands.\<close>

record tracking_item =
  Item_email :: jsval
  Item_token :: jsstring
  Item_sentAt :: jsstring
  Item_ttl :: int

record query_params =
  Query_TableName :: jsstring
  KeyConditionExpression :: jsstring
  ExpressionAttributeValues :: "(jsstring \<times> jsval) list"

record put_params =
  Put_TableName :: jsstring
  Item :: tracking_item

record send_email_params =
  Source :: jsstring
  ToAddresses :: "jsval list"
  Subject_Data :: jsstring
  Subject_Charset :: jsstring
  Text_Data :: jsstring
  Text_Charset :: jsstring
  Html_Data :: jsstring
  Html_Charset :: jsstring

datatype command =
    QueryCommand query_params
  | SendEmailCommand send_email_params
  | PutCommand put_params

text \<open>
  The world outside the function: the tables of the store, each keyed by the \<^verbatim>\<open>email\<close>
  attribute (the key of the table according to the README); the messages that the mail service has accepted, oldest first; the commands
  that the function has issued, oldest first; for each service call the error, if any,
  with which it rejects; the clock, as the sequence of its readings (time values in
  milliseconds); and the generator behind \<^verbatim>\<open>uuidv4\<close>, as the sequence of its results.
\<close>

record world =
  tables :: "jsstring \<Rightarrow> jsval \<Rightarrow> tracking_item option"
  outbox :: "send_email_params list"
  trace :: "command list"
  query_fault :: "query_params \<Rightarrow> js_error option"
  send_fault :: "send_email_params \<Rightarrow> js_error option"
  put_fault :: "put_params \<Rightarrow> js_error option"
  clock :: "nat \<Rightarrow> int"
  ticks :: nat
  uuids :: "nat \<Rightarrow> jsstring"
  drawn :: nat

text \<open>
  \<^verbatim>\<open>docClient.send(new QueryCommand(params))\<close>. The store answers the key condition that
  the program uses, \<^verbatim>\<open>email = :email\<close>, with the items of the table under the value bound
  to \<^verbatim>\<open>:email\<close>; the result is the \<^verbatim>\<open>Items\<close> property of the response.
\<close>

definition docClient_send_Query ::
  "query_params \<Rightarrow> world \<Rightarrow> (js_error + tracking_item list option) \<times> world" where
  "docClient_send_Query params w =
     (let w' = w\<lparr>trace := trace w @ [QueryCommand params]\<rparr> in
      case query_fault w params of
        Some error \<Rightarrow> (Inl error, w')
      | None \<Rightarrow>
          if KeyConditionExpression params = lit ''email = :email'' then
            (case map_of (ExpressionAttributeValues params) (lit '':email'') of
               None \<Rightarrow> (Inl (ServiceError (lit ''ValidationException'')), w')
             | Some key \<Rightarrow>
                 (case tables w (Query_TableName params) key of
                    None \<Rightarrow> (Inr (Some []), w')
                  | Some item \<Rightarrow> (Inr (Some [item]), w')))
          else (Inl (ServiceError (lit ''ValidationException'')), w'))"

text \<open>\<^verbatim>\<open>docClient.send(new PutCommand(params))\<close>: the item replaces the one under its key.\<close>

definition docClient_send_Put :: "put_params \<Rightarrow> world \<Rightarrow> (js_error + unit) \<times> world" where
  "docClient_send_Put params w =
     (let w' = w\<lparr>trace := trace w @ [PutCommand params]\<rparr> in
      case put_fault w params of
        Some error \<Rightarrow> (Inl error, w')
      | None \<Rightarrow>
          (Inr (),
           w'\<lparr>tables := (tables w)(Put_TableName params :=
                 (tables w (Put_TableName params))(Item_email (Item params) \<mapsto> Item params))\<rparr>))"

text \<open>\<^verbatim>\<open>sesClient.send(command)\<close>: an accepted message joins the outbox.\<close>

definition sesClient_send :: "send_email_params \<Rightarrow> world \<Rightarrow> (js_error + unit) \<times> world" where
  "sesClient_send params w =
     (let w' = w\<lparr>trace := trace w @ [SendEmailCommand params]\<rparr> in
      case send_fault w params of
        Some error \<Rightarrow> (Inl error, w')
      | None \<Rightarrow> (Inr (), w'\<lparr>outbox := outbox w @ [params]\<rparr>))"

text \<open>\<^verbatim>\<open>uuidv4()\<close> draws the next result of the generator; it cannot fail.\<close>

definition uuidv4 :: "world \<Rightarrow> jsstring \<times> world" where
  "uuidv4 w = (uuids w (drawn w), w\<lparr>drawn := Suc (drawn w)\<rparr>)"

text \<open>\<^verbatim>\<open>Date.now()\<close>, and the time value of \<^verbatim>\<open>new Date()\<close>: the next reading of the clock.\<close>

definition Date_now :: "world \<Rightarrow> int \<times> world" where
  "Date_now w = (clock w (ticks w), w\<lparr>ticks := Suc (ticks w)\<rparr>)"

section \<open>The program\<close>

subsection \<open>checkDuplicateEmail\<close>

text \<open>
  The function queries the table for the items under the address. Its result is used as a
  condition only, so the model returns its truth value: \<^verbatim>\<open>result.Items &&
  result.Items.length > 0\<close> is truthy when \<^verbatim>\<open>Items\<close> is there and not empty. An error of
  the query is caught and answered with \<^verbatim>\<open>false\<close>.
\<close>

definition checkDuplicateEmail_params :: "process_env \<Rightarrow> jsval \<Rightarrow> query_params" where
  "checkDuplicateEmail_params env email =
     \<lparr>Query_TableName = DYNAMODB_TABLE env,
      KeyConditionExpression = lit ''email = :email'',
      ExpressionAttributeValues = [(lit '':email'', email)]\<rparr>"

definition checkDuplicateEmail :: "process_env \<Rightarrow> jsval \<Rightarrow> world \<Rightarrow> bool \<times> world" where
  "checkDuplicateEmail env email w =
     (case docClient_send_Query (checkDuplicateEmail_params env email) w of
        (Inr result_Items, w') \<Rightarrow>
          ((case result_Items of None \<Rightarrow> False | Some items \<Rightarrow> length items > 0), w')
      | (Inl error, w') \<Rightarrow> (False, w'))"

subsection \<open>sendVerificationEmail\<close>

text \<open>The two template literals of the message, with the first name and the link spliced in.\<close>

definition text_body :: "jsstring \<Rightarrow> jsstring \<Rightarrow> jsstring" where
  "text_body firstName verificationLink =
     lit ''Hello '' @
     firstName @
     lit ('',\<newline>'' @
          ''\<newline>'' @
          ''Thank you for creating an account. Please verify your email address by clicking the link below:\<newline>'' @
          ''\<newline>'') @
     verificationLink @
     lit (''\<newline>'' @
          ''\<newline>'' @
          ''This link will expire in 1 minute.\<newline>'' @
          ''\<newline>'' @
          ''If you did not create an account, please ignore this email.\<newline>'' @
          ''\<newline>'' @
          ''Best regards,\<newline>'' @
          ''CSYE6225 Team'')"

definition html_body :: "jsstring \<Rightarrow> jsstring \<Rightarrow> jsstring" where
  "html_body firstName verificationLink =
     lit (''\<newline>'' @
          ''<!DOCTYPE html>\<newline>'' @
          ''<html>\<newline>'' @
          ''<head>\<newline>'' @
          ''  <style>\<newline>'' @
          ''    body { font-family: Arial, sans-serif; line-height: 1.6; color: #333; }\<newline>'' @
          ''    .container { max-width: 600px; margin: 0 auto; padding: 20px; }\<newline>'' @
          ''    .button { \<newline>'' @
          ''      display: inline-block; \<newline>'' @
          ''      padding: 12px 24px; \<newline>'' @
          ''      background-color: #007bff; \<newline>'' @
          ''      color: white; \<newline>'' @
          ''      text-decoration: none; \<newline>'' @
          ''      border-radius: 4px; \<newline>'' @
          ''      margin: 20px 0;\<newline>'' @
          ''    }\<newline>'' @
          ''    .footer { margin-top: 30px; font-size: 12px; color: #666; }\<newline>'' @
          ''  </style>\<newline>'' @
          ''</head>\<newline>'' @
          ''<body>\<newline>'' @
          ''  <div class=\"container\">\<newline>'' @
          ''    <h2>Verify Your Email Address</h2>\<newline>'' @
          ''    <p>Hello '') @
     firstName @
     lit ('',</p>\<newline>'' @
          ''    <p>Thank you for creating an account. Please verify your email address by clicking the button below:</p>\<newline>'' @
          ''    <a href=\"'') @
     verificationLink @
     lit (''\" class=\"button\">Verify Email</a>\<newline>'' @
          ''    <p>Or copy and paste this link into your browser:</p>\<newline>'' @
          ''    <p style=\"word-break: break-all; color: #007bff;\">'') @
     verificationLink @
     lit (''</p>\<newline>'' @
          ''    <p><strong>This link will expire in 1 minute.</strong></p>\<newline>'' @
          ''    <p>If you did not create an account, please ignore this email.</p>\<newline>'' @
          ''    <div class=\"footer\">\<newline>'' @
          ''      <p>Best regards,<br>CSYE6225 Team</p>\<newline>'' @
          ''    </div>\<newline>'' @
          ''  </div>\<newline>'' @
          ''</body>\<newline>'' @
          ''</html>'')"

text \<open>
  The parameters are built first: the template literals convert \<^verbatim>\<open>firstName\<close> to a
  string, which can throw. Then the command is sent, and an error of the service is not
  caught.
\<close>

definition sendVerificationEmail_params ::
  "process_env \<Rightarrow> jsval \<Rightarrow> jsstring \<Rightarrow> jsstring \<Rightarrow> send_email_params" where
  "sendVerificationEmail_params env email name verificationLink =
     \<lparr>Source = FROM_EMAIL env,
      ToAddresses = [email],
      Subject_Data = lit ''Verify Your Email Address'',
      Subject_Charset = lit ''UTF-8'',
      Text_Data = text_body name verificationLink,
      Text_Charset = lit ''UTF-8'',
      Html_Data = html_body name verificationLink,
      Html_Charset = lit ''UTF-8''\<rparr>"

definition sendVerificationEmail ::
  "process_env \<Rightarrow> runtime \<Rightarrow> jsval \<Rightarrow> jsval \<Rightarrow> jsstring \<Rightarrow> world \<Rightarrow> (js_error + unit) \<times> world"
where
  "sendVerificationEmail env rt email firstName verificationLink w =
     (case ToString (Number_toString rt) firstName of
        Inl error \<Rightarrow> (Inl error, w)
      | Inr name \<Rightarrow>
          sesClient_send (sendVerificationEmail_params env email name verificationLink) w)"

subsection \<open>trackEmailSent\<close>

text \<open>
  The item is built from the address, the token, the ISO rendering of \<^verbatim>\<open>new Date()\<close> and
  \<^verbatim>\<open>Math.floor(Date.now() / 1000) + (60 * 60 * 24)\<close>; the clock is read twice, in this
  order. A time value is an integer, so the floor of its quotient by 1000 is the integer
  quotient. An error of the put is not caught.
\<close>

definition trackEmailSent_params ::
  "process_env \<Rightarrow> jsval \<Rightarrow> jsstring \<Rightarrow> int \<Rightarrow> int \<Rightarrow> put_params" where
  "trackEmailSent_params env email token date now =
     \<lparr>Put_TableName = DYNAMODB_TABLE env,
      Item = \<lparr>Item_email = email,
              Item_token = token,
              Item_sentAt = Date_toISOString date,
              Item_ttl = now div 1000 + 60 * 60 * 24\<rparr>\<rparr>"

definition trackEmailSent ::
  "process_env \<Rightarrow> jsval \<Rightarrow> jsstring \<Rightarrow> world \<Rightarrow> (js_error + unit) \<times> world" where
  "trackEmailSent env email token w =
     (case Date_now w of (date, w1) \<Rightarrow>
      case Date_now w1 of (now, w2) \<Rightarrow>
        docClient_send_Put (trackEmailSent_params env email token date now) w2)"

subsection \<open>handler\<close>

text \<open>The value that the handler returns.\<close>

record response =
  statusCode :: nat
  body :: jsstring

text \<open>
  \<^verbatim>\<open>JSON.stringify({ message: m })\<close> for a message \<open>m\<close> in which no character has to be
  escaped, as in the two messages of the handler.
\<close>

definition JSON_stringify_message :: "jsstring \<Rightarrow> jsstring" where
  "JSON_stringify_message m = lit ''{\"message\":\"'' @ m @ lit ''\"}''"

text \<open>\<^verbatim>\<open>JSON.parse(event.Records[0].Sns.Message)\<close>\<close>

definition sns_message :: "runtime \<Rightarrow> jsval \<Rightarrow> js_error + jsval" where
  "sns_message rt event =
     bindE (Get event (lit ''Records'')) (\<lambda>records.
     bindE (GetIndex records 0) (\<lambda>record0.
     bindE (Get record0 (lit ''Sns'')) (\<lambda>sns.
     bindE (Get sns (lit ''Message'')) (\<lambda>message.
     bindE (ToString (Number_toString rt) message) (JSON_parse rt)))))"

text \<open>
  The verification link:
  \<^verbatim>\<open>`https://${DOMAIN}/v1/user/verify?email=${encodeURIComponent(email)}&token=${token}`\<close>
\<close>

definition verification_link ::
  "process_env \<Rightarrow> runtime \<Rightarrow> jsval \<Rightarrow> jsstring \<Rightarrow> js_error + jsstring" where
  "verification_link env rt email token =
     bindE (encodeURIComponent (Number_toString rt) email) (\<lambda>encoded.
       Inr (lit ''https://'' @ DOMAIN env @ lit ''/v1/user/verify?email='' @ encoded @
            lit ''&token='' @ token))"

text \<open>
  The first statements of the handler, up to the first log line that mentions the address:
  the message is parsed, \<^verbatim>\<open>const { email, firstName, lastName } = snsMessage\<close> reads the
  three properties (and throws a TypeError on \<^verbatim>\<open>null\<close>), and the template literal of
  the log line converts \<^verbatim>\<open>email\<close> to a string, which can throw.
\<close>

definition event_intake :: "runtime \<Rightarrow> jsval \<Rightarrow> js_error + jsval \<times> jsval \<times> jsval" where
  "event_intake rt event =
     bindE (sns_message rt event) (\<lambda>snsMessage.
     bindE (Get snsMessage (lit ''email'')) (\<lambda>email.
     bindE (Get snsMessage (lit ''firstName'')) (\<lambda>firstName.
     bindE (Get snsMessage (lit ''lastName'')) (\<lambda>lastName.
     bindE (ToString (Number_toString rt) email) (\<lambda>_.
       Inr (email, firstName, lastName))))))"

text \<open>
  The handler. Whatever is thrown inside its \<^verbatim>\<open>try\<close> block is logged and thrown again, so
  the invocation ends with that error. What \<^verbatim>\<open>console.log\<close> prints is not part of the
  model. (The first log line prints \<^verbatim>\<open>JSON.stringify(event, null, 2)\<close>, which cannot
  throw on a value that came from JSON; the later ones convert \<^verbatim>\<open>email\<close> again, which
  has succeeded before.)
\<close>

definition handler ::
  "process_env \<Rightarrow> runtime \<Rightarrow> jsval \<Rightarrow> world \<Rightarrow> (js_error + response) \<times> world" where
  "handler env rt event w =
     (case event_intake rt event of
        Inl error \<Rightarrow> (Inl error, w)
      | Inr (email, firstName, lastName) \<Rightarrow>
          (case checkDuplicateEmail env email w of (isDuplicate, w1) \<Rightarrow>
             if isDuplicate then
               (Inr \<lparr>statusCode = 200,
                     body = JSON_stringify_message (lit ''Email already sent'')\<rparr>, w1)
             else
               (case uuidv4 w1 of (token, w2) \<Rightarrow>
                  (case verification_link env rt email token of
                     Inl error \<Rightarrow> (Inl error, w2)
                   | Inr verificationLink \<Rightarrow>
                       (case sendVerificationEmail env rt email firstName verificationLink w2 of
                          (Inl error, w3) \<Rightarrow> (Inl error, w3)
                        | (Inr _, w3) \<Rightarrow>
                            (case trackEmailSent env email token w3 of
                               (Inl error, w4) \<Rightarrow> (Inl error, w4)
                             | (Inr _, w4) \<Rightarrow>
                                 (Inr \<lparr>statusCode = 200,
                                       body = JSON_stringify_message
                                                (lit ''Email sent successfully'')\<rparr>, w4)))))))"

section \<open>Percent-encoding, as the specification words it\<close>

text \<open>
  The specification describes the address in the link as the address with percent-encoding
  applied to its reserved characters. Written out independently of \<open>Encode\<close>: the string
  is read as a sequence of code points (a surrogate that is not half of a pair makes it
  ill-formed); a code point that is one of the unreserved characters, listed here one by
  one, stays as it is; every other code point becomes the escapes \<^verbatim>\<open>%HH\<close> of the octets
  of its UTF-8 encoding, with upper-case hexadecimal digits.
\<close>

definition unreserved_characters :: string where
  "unreserved_characters =
     ''ABCDEFGHIJKLMNOPQRSTUVWXYZabcdefghijklmnopqrstuvwxyz0123456789-_.!~*()'' @ [CHR 0x27]"

definition percent_escape :: "nat \<Rightarrow> jsstring" where
  "percent_escape octet =
     lit ''%'' @ [lit ''0123456789ABCDEF'' ! (octet div 16), lit ''0123456789ABCDEF'' ! (octet mod 16)]"

fun code_points :: "jsstring \<Rightarrow> nat list option" where
  "code_points [] = Some []"
| "code_points [c] = (if 0xD800 \<le> c \<and> c \<le> 0xDFFF then None else Some [unat c])"
| "code_points (c # d # cs) =
     (if 0xD800 \<le> c \<and> c \<le> 0xDBFF \<and> 0xDC00 \<le> d \<and> d \<le> 0xDFFF then
        map_option (Cons (0x10000 + (unat c - 0xD800) * 0x400 + (unat d - 0xDC00)))
          (code_points cs)
      else if 0xD800 \<le> c \<and> c \<le> 0xDFFF then None
      else map_option (Cons (unat c)) (code_points (d # cs)))"

definition percent_encoded :: "nat \<Rightarrow> jsstring" where
  "percent_encoded cp =
     (if cp \<in> of_char ` set unreserved_characters then [of_nat cp]
      else concat (map percent_escape (utf8 cp)))"

definition percent_encoding :: "jsstring \<Rightarrow> jsstring option" where
  "percent_encoding s = map_option (\<lambda>cps. concat (map percent_encoded cps)) (code_points s)"

section \<open>Observations and examples\<close>

text \<open>The commands of each kind among the commands that were issued.\<close>

fun query_commands :: "command list \<Rightarrow> query_params list" where
  "query_commands [] = []"
| "query_commands (QueryCommand q # cs) = q # query_commands cs"
| "query_commands (c # cs) = query_commands cs"

fun send_commands :: "command list \<Rightarrow> send_email_params list" where
  "send_commands [] = []"
| "send_commands (SendEmailCommand m # cs) = m # send_commands cs"
| "send_commands (c # cs) = send_commands cs"

fun put_commands :: "command list \<Rightarrow> put_params list" where
  "put_commands [] = []"
| "put_commands (PutCommand p # cs) = p # put_commands cs"
| "put_commands (c # cs) = put_commands cs"

text \<open>
  The envelope that SNS delivers to a Lambda function, reduced to what the handler reads:
  \<^verbatim>\<open>{ Records: [ { Sns: { Message: text } }, ... ] }\<close>.
\<close>

definition sns_record :: "jsstring \<Rightarrow> jsval" where
  "sns_record text = JObj [(lit ''Sns'', JObj [(lit ''Message'', JStr text)])]"

definition sns_event :: "jsval list \<Rightarrow> jsval" where
  "sns_event records = JObj [(lit ''Records'', JArr records)]"

text \<open>
  Two registration messages that differ in the last name only, each as the text that is
  published and as the value that \<^verbatim>\<open>JSON.parse\<close> makes of it. Both carry a token.
\<close>

definition john_doe_text :: jsstring where
  "john_doe_text =
     lit ''{\"email\":\"a@b.com\",\"firstName\":\"John\",\"lastName\":\"Doe\",\"token\":\"test-uuid\"}''"

definition john_doe :: jsval where
  "john_doe =
     JObj [(lit ''email'', JStr (lit ''a@b.com'')),
           (lit ''firstName'', JStr (lit ''John'')),
           (lit ''lastName'', JStr (lit ''Doe'')),
           (lit ''token'', JStr (lit ''test-uuid''))]"

definition john_roe_text :: jsstring where
  "john_roe_text =
     lit ''{\"email\":\"a@b.com\",\"firstName\":\"John\",\"lastName\":\"Roe\",\"token\":\"test-uuid\"}''"

definition john_roe :: jsval where
  "john_roe =
     JObj [(lit ''email'', JStr (lit ''a@b.com'')),
           (lit ''firstName'', JStr (lit ''John'')),
           (lit ''lastName'', JStr (lit ''Roe'')),
           (lit ''token'', JStr (lit ''test-uuid''))]"

text \<open>
  A runtime for the examples: its \<^verbatim>\<open>JSON.parse\<close> answers as the real one does on the two
  texts above and on the text \<^verbatim>\<open>not json\<close>, which are the texts of the examples.
\<close>

definition example_runtime :: runtime where
  "example_runtime =
     \<lparr>JSON_parse = (\<lambda>text. if text = john_doe_text then Inr john_doe
                            else if text = john_roe_text then Inr john_roe
                            else Inl SyntaxError),
      Number_toString = (\<lambda>x. lit ''0'')\<rparr>"

text \<open>No variable of the environment is set, so the defaults of the module apply.\<close>

definition example_env :: process_env where
  "example_env = \<lparr>env_DOMAIN = None, env_SES_FROM_EMAIL = None, env_DYNAMODB_TABLE = None\<rparr>"

text \<open>
  A world in which the table is empty and every service call succeeds; the clock stands at
  2023-11-14T22:13:20.000Z and advances by a millisecond with every reading.
\<close>

definition example_uuid :: jsstring where
  "example_uuid = lit ''9b1deb4d-3b7d-4bad-9bdf-2b0d7b3dcb6d''"

definition quiet_world :: world where
  "quiet_world =
     \<lparr>tables = (\<lambda>name key. None),
      outbox = [],
      trace = [],
      query_fault = (\<lambda>params. None),
      send_fault = (\<lambda>params. None),
      put_fault = (\<lambda>params. None),
      clock = (\<lambda>n. 1700000000000 + int n),
      ticks = 0,
      uuids = (\<lambda>n. if n = 0 then example_uuid else lit ''1b9d6bcd-bbfd-4b2d-9b5d-ab8dfbbd4bed''),
      drawn = 0\<rparr>"

text \<open>The item that the handler writes for the first example in the quiet world.\<close>

definition example_item :: tracking_item where
  "example_item =
     \<lparr>Item_email = JStr (lit ''a@b.com''),
      Item_token = example_uuid,
      Item_sentAt = lit ''2023-11-14T22:13:20.000Z'',
      Item_ttl = 1700086400\<rparr>"

text \<open>Worlds in which the store rejects every query, and the mail service every message.\<close>

definition store_down_world :: world where
  "store_down_world =
     quiet_world\<lparr>query_fault :=
       (\<lambda>params. Some (ServiceError (lit ''ProvisionedThroughputExceededException'')))\<rparr>"

definition mail_down_world :: world where
  "mail_down_world =
     quiet_world\<lparr>send_fault := (\<lambda>params. Some (ServiceError (lit ''MessageRejected'')))\<rparr>"

text \<open>The link and the message of the first example in the quiet world.\<close>

definition example_link :: jsstring where
  "example_link =
     lit ''https://dev.ritimoradiya.me/v1/user/verify?email=a%40b.com&token=9b1deb4d-3b7d-4bad-9bdf-2b0d7b3dcb6d''"

definition example_message :: send_email_params where
  "example_message =
     sendVerificationEmail_params example_env (JStr (lit ''a@b.com'')) (lit ''John'') example_link"

text \<open>
  An environment in which the three variables are set, and the link of the first example
  under it.
\<close>

definition configured_env :: process_env where
  "configured_env =
     \<lparr>env_DOMAIN = Some (lit ''demo.example.com''),
      env_SES_FROM_EMAIL = Some (lit ''noreply@example.com''),
      env_DYNAMODB_TABLE = Some (lit ''Tracking'')\<rparr>"

definition configured_link :: jsstring where
  "configured_link =
     lit ''https://demo.example.com/v1/user/verify?email=a%40b.com&token=9b1deb4d-3b7d-4bad-9bdf-2b0d7b3dcb6d''"

text \<open>A world in which the table holds the item and the store rejects every query.\<close>

definition recorded_store_down_world :: world where
  "recorded_store_down_world =
     store_down_world\<lparr>tables :=
       (\<lambda>name key. if key = JStr (lit ''a@b.com'') then Some example_item else None)\<rparr>"

section \<open>The steps of the handler\<close>

lemma bindE_Inr [simp]: "bindE (Inr x) f = f x"
  by (simp add: bindE_def)

lemma bindE_Inl [simp]: "bindE (Inl e) f = Inl e"
  by (simp add: bindE_def)

lemma lit_append: "lit (s @ t) = lit s @ lit t"
  by (simp add: lit_def)

lemma query_commands_append [simp]:
  "query_commands (cs @ ds) = query_commands cs @ query_commands ds"
  by (induction cs rule: query_commands.induct) simp_all

lemma send_commands_append [simp]:
  "send_commands (cs @ ds) = send_commands cs @ send_commands ds"
  by (induction cs rule: send_commands.induct) simp_all

lemma put_commands_append [simp]:
  "put_commands (cs @ ds) = put_commands cs @ put_commands ds"
  by (induction cs rule: put_commands.induct) simp_all

text \<open>
  The duplicate guard issues one query and answers \<open>True\<close> exactly when the query succeeds
  and the table holds an item under the address.
\<close>

lemma checkDuplicateEmail_eq:
  "checkDuplicateEmail env email w =
     (query_fault w (checkDuplicateEmail_params env email) = None \<and>
        tables w (DYNAMODB_TABLE env) email \<noteq> None,
      w\<lparr>trace := trace w @ [QueryCommand (checkDuplicateEmail_params env email)]\<rparr>)"
  by (auto simp: checkDuplicateEmail_def docClient_send_Query_def checkDuplicateEmail_params_def
      Let_def split: option.splits)

lemma sendVerificationEmail_eq:
  "sendVerificationEmail env rt email firstName link w =
     (case ToString (Number_toString rt) firstName of
        Inl error \<Rightarrow> (Inl error, w)
      | Inr name \<Rightarrow>
          (let params = sendVerificationEmail_params env email name link;
               w' = w\<lparr>trace := trace w @ [SendEmailCommand params]\<rparr>
           in case send_fault w params of
                Some error \<Rightarrow> (Inl error, w')
              | None \<Rightarrow> (Inr (), w'\<lparr>outbox := outbox w @ [params]\<rparr>)))"
  by (simp add: sendVerificationEmail_def sesClient_send_def Let_def split: sum.splits)

lemma trackEmailSent_eq:
  "trackEmailSent env email token w =
     (let params = trackEmailSent_params env email token
                     (clock w (ticks w)) (clock w (Suc (ticks w)));
          w' = w\<lparr>ticks := Suc (Suc (ticks w)), trace := trace w @ [PutCommand params]\<rparr>
      in case put_fault w params of
           Some error \<Rightarrow> (Inl error, w')
         | None \<Rightarrow>
             (Inr (), w'\<lparr>tables := (tables w)(DYNAMODB_TABLE env :=
                   (tables w (DYNAMODB_TABLE env))(email \<mapsto> Item params))\<rparr>))"
  by (simp add: trackEmailSent_def Date_now_def docClient_send_Put_def Let_def
      trackEmailSent_params_def split: option.splits)

text \<open>The whole handler, as one case distinction on what its environment answers.\<close>

lemma handler_eq:
  "handler env rt event w =
     (case event_intake rt event of
        Inl error \<Rightarrow> (Inl error, w)
      | Inr (email, firstName, lastName) \<Rightarrow>
          let q = checkDuplicateEmail_params env email;
              token = uuids w (drawn w)
          in if query_fault w q = None \<and> tables w (DYNAMODB_TABLE env) email \<noteq> None then
               (Inr \<lparr>statusCode = 200,
                     body = JSON_stringify_message (lit ''Email already sent'')\<rparr>,
                w\<lparr>trace := trace w @ [QueryCommand q]\<rparr>)
             else
               (case verification_link env rt email token of
                  Inl error \<Rightarrow>
                    (Inl error, w\<lparr>trace := trace w @ [QueryCommand q], drawn := Suc (drawn w)\<rparr>)
                | Inr link \<Rightarrow>
                    (case ToString (Number_toString rt) firstName of
                       Inl error \<Rightarrow>
                         (Inl error,
                          w\<lparr>trace := trace w @ [QueryCommand q], drawn := Suc (drawn w)\<rparr>)
                     | Inr name \<Rightarrow>
                         let msg = sendVerificationEmail_params env email name link in
                         (case send_fault w msg of
                            Some error \<Rightarrow>
                              (Inl error,
                               w\<lparr>trace := trace w @ [QueryCommand q, SendEmailCommand msg],
                                  drawn := Suc (drawn w)\<rparr>)
                          | None \<Rightarrow>
                              let p = trackEmailSent_params env email token
                                        (clock w (ticks w)) (clock w (Suc (ticks w)))
                              in (case put_fault w p of
                                    Some error \<Rightarrow>
                                      (Inl error,
                                       w\<lparr>trace := trace w @
                                            [QueryCommand q, SendEmailCommand msg, PutCommand p],
                                          drawn := Suc (drawn w),
                                          outbox := outbox w @ [msg],
                                          ticks := Suc (Suc (ticks w))\<rparr>)
                                  | None \<Rightarrow>
                                      (Inr \<lparr>statusCode = 200,
                                            body = JSON_stringify_message
                                                     (lit ''Email sent successfully'')\<rparr>,
                                       w\<lparr>trace := trace w @
                                            [QueryCommand q, SendEmailCommand msg, PutCommand p],
                                          drawn := Suc (drawn w),
                                          outbox := outbox w @ [msg],
                                          ticks := Suc (Suc (ticks w)),
                                          tables := (tables w)(DYNAMODB_TABLE env :=
                                            (tables w (DYNAMODB_TABLE env))
                                              (email \<mapsto> Item p))\<rparr>))))))"
  by (simp add: handler_def checkDuplicateEmail_eq uuidv4_def sendVerificationEmail_eq
      trackEmailSent_eq Let_def split: sum.splits option.splits prod.splits)

text \<open>Reading the message of the first record of an SNS envelope.\<close>

lemma sns_message_sns_event:
  "sns_message rt (sns_event (sns_record text # records)) = JSON_parse rt text"
  by (simp add: sns_message_def sns_event_def sns_record_def)

section \<open>encodeURIComponent and percent-encoding\<close>

text \<open>
  The character class of \<open>Encode\<close> is the listed alphabet, its escapes are the escapes of
  the specification, and so \<open>Encode\<close> computes the percent-encoding and throws exactly on
  ill-formed strings.
\<close>

lemma unreserved_unat:
  "unreserved c \<longleftrightarrow>
     (65 \<le> unat c \<and> unat c \<le> 90) \<or> (97 \<le> unat c \<and> unat c \<le> 122) \<or>
     (48 \<le> unat c \<and> unat c \<le> 57) \<or> unat c \<in> {45, 95, 46, 33, 126, 42, 39, 40, 41}"
  by (simp add: unreserved_def word_le_nat_alt word_unat_eq_iff)

lemma unfold_range: "{a..b::nat} = (if a \<le> b then insert a {Suc a..b} else {})"
  by auto

lemma unreserved_ranges:
  "of_char ` set unreserved_characters =
     ({65..90} \<union> {97..122} \<union> {48..57} \<union> {45, 95, 46, 33, 126, 42, 39, 40, 41} :: nat set)"
  by (simp add: unreserved_characters_def unfold_range) blast

lemma unreserved_iff: "unreserved c \<longleftrightarrow> unat c \<in> of_char ` set unreserved_characters"
  unfolding unreserved_ranges unreserved_unat by auto

lemma hex_digit_eq: "n < 16 \<Longrightarrow> hex_digit n = lit ''0123456789ABCDEF'' ! n"
proof -
  assume "n < 16"
  then have "n = 0 \<or> n = 1 \<or> n \<in> {2..9} \<or> n \<in> {10..15}" by auto
  then show ?thesis
    by (auto simp: unfold_range hex_digit_def lit_def)
qed

lemma percent_eq: "b < 256 \<Longrightarrow> percent b = percent_escape b"
  by (simp add: percent_def percent_escape_def hex_digit_eq less_mult_imp_div_less)
     (simp add: lit_def)

lemma utf8_octets: "b \<in> set (utf8 cp) \<Longrightarrow> b < 256"
  by (auto simp: utf8_def split: if_splits)

lemma escape_eq: "escape cp = concat (map percent_escape (utf8 cp))"
  unfolding escape_def
  by (rule arg_cong [where f = concat]) (simp add: percent_eq utf8_octets)

lemma encode_unit:
  "(if unreserved c then [c] else escape (unat c)) = percent_encoded (unat c)"
  by (simp add: percent_encoded_def unreserved_iff [symmetric] escape_eq)

lemma encode_pair:
  "0xD800 \<le> c \<Longrightarrow>
     escape ((unat c - 0xD800) * 0x400 + (unat d - 0xDC00) + 0x10000) =
     percent_encoded (0x10000 + (unat c - 0xD800) * 0x400 + (unat d - 0xDC00))"
  by (simp add: percent_encoded_def unreserved_ranges escape_eq add.commute add.left_commute)

lemma unreserved_not_surrogate: "unreserved c \<Longrightarrow> \<not> (0xD800 \<le> c \<and> c \<le> 0xDFFF)"
  by (auto simp: unreserved_def word_le_nat_alt word_unat_eq_iff)

lemma Encode_percent_encoding:
  "Encode s = (case percent_encoding s of None \<Rightarrow> Inl URIError | Some r \<Rightarrow> Inr r)"
proof (induction s rule: code_points.induct)
  case 1
  show ?case by (simp add: percent_encoding_def)
next
  case (2 c)
  show ?case
    using encode_unit [of c] unreserved_not_surrogate [of c]
    by (auto simp: percent_encoding_def lead_surrogate_def trail_surrogate_def
        word_le_nat_alt split: if_splits)
next
  case (3 c d cs)
  show ?case
  proof (cases "0xD800 \<le> c \<and> c \<le> 0xDBFF \<and> 0xDC00 \<le> d \<and> d \<le> 0xDFFF")
    case True
    then have "\<not> unreserved c" "\<not> trail_surrogate c" "lead_surrogate c" "trail_surrogate d"
      using unreserved_not_surrogate [of c]
      by (auto simp: lead_surrogate_def trail_surrogate_def word_le_nat_alt)
    then show ?thesis
      using True "3.IH"(1) [OF True] encode_pair [of c d]
      by (simp add: percent_encoding_def split: option.splits)
  next
    case False
    show ?thesis
    proof (cases "0xD800 \<le> c \<and> c \<le> 0xDFFF")
      case True
      then have "\<not> unreserved c" using unreserved_not_surrogate [of c] by blast
      moreover from True False have "trail_surrogate c \<or> (lead_surrogate c \<and> \<not> trail_surrogate d)"
        by (auto simp: lead_surrogate_def trail_surrogate_def word_le_nat_alt)
      ultimately show ?thesis
        using True False by (auto simp: percent_encoding_def)
    next
      case notsur: False
      then have "\<not> trail_surrogate c" "\<not> lead_surrogate c"
        by (auto simp: lead_surrogate_def trail_surrogate_def word_le_nat_alt)
      then show ?thesis
        using False notsur "3.IH"(2) [OF False notsur] encode_unit [of c]
        by (auto simp: percent_encoding_def split: option.splits if_splits)
    qed
  qed
qed

section \<open>The examples, evaluated\<close>

lemma john_texts_differ: "john_roe_text \<noteq> john_doe_text"
  by (simp add: john_roe_text_def john_doe_text_def lit_def)

lemma intake_john_doe:
  "event_intake example_runtime (sns_event (sns_record john_doe_text # records)) =
     Inr (JStr (lit ''a@b.com''), JStr (lit ''John''), JStr (lit ''Doe''))"
  by (simp add: event_intake_def sns_message_sns_event example_runtime_def john_doe_def lit_def)

lemma encode_a_at_b:
  "encodeURIComponent nts (JStr (lit ''a@b.com'')) = Inr (lit ''a%40b.com'')"
  by (simp add: encodeURIComponent_def lit_def unreserved_def trail_surrogate_def
      lead_surrogate_def escape_def utf8_def percent_def hex_digit_def)

lemma example_link_eq:
  "verification_link example_env rt (JStr (lit ''a@b.com'')) example_uuid = Inr example_link"
  unfolding verification_link_def encode_a_at_b
  by (simp add: DOMAIN_def or_default_def example_env_def example_link_def example_uuid_def
      lit_def)

lemma example_date: "Date_toISOString 1700000000000 = lit ''2023-11-14T22:13:20.000Z''"
  by code_simp

lemma example_put:
  "trackEmailSent_params example_env (JStr (lit ''a@b.com'')) example_uuid
     1700000000000 1700000000001 =
   \<lparr>Put_TableName = lit ''EmailVerificationTracking'', Item = example_item\<rparr>"
  by (simp add: trackEmailSent_params_def example_date example_item_def DYNAMODB_TABLE_def
      or_default_def example_env_def)

lemma handler_john_doe_quiet:
  "handler example_env example_runtime (sns_event (sns_record john_doe_text # records))
     quiet_world =
     (Inr \<lparr>statusCode = 200, body = JSON_stringify_message (lit ''Email sent successfully'')\<rparr>,
      quiet_world
        \<lparr>trace := [QueryCommand (checkDuplicateEmail_params example_env (JStr (lit ''a@b.com''))),
                   SendEmailCommand example_message,
                   PutCommand \<lparr>Put_TableName = lit ''EmailVerificationTracking'',
                                Item = example_item\<rparr>],
         drawn := 1,
         outbox := [example_message],
         ticks := 2,
         tables := (\<lambda>name key. None)(DYNAMODB_TABLE example_env :=
                     [JStr (lit ''a@b.com'') \<mapsto> example_item])\<rparr>)"
  by (simp add: handler_eq intake_john_doe quiet_world_def example_link_eq Let_def
      example_message_def example_put)

lemma quiet_not_duplicate:
  "\<not> fst (checkDuplicateEmail example_env (JStr (lit ''a@b.com'')) quiet_world)"
  by (simp add: checkDuplicateEmail_eq quiet_world_def)

lemma mail_down_not_duplicate:
  "checkDuplicateEmail example_env (JStr (lit ''a@b.com'')) mail_down_world =
     (False, mail_down_world\<lparr>trace :=
        [QueryCommand (checkDuplicateEmail_params example_env (JStr (lit ''a@b.com'')))]\<rparr>)"
  by (simp add: checkDuplicateEmail_eq mail_down_world_def quiet_world_def)

lemma key_names_differ:
  "lit ''email'' \<noteq> lit ''lastName''" "lit ''firstName'' \<noteq> lit ''lastName''"
  by (simp_all add: lit_def)

text \<open>Where the link stands in the two bodies of the message.\<close>

lemma occurs_once: "\<exists>pre post. a @ n @ b @ l @ c = pre @ l @ post"
  by (metis append.assoc)

lemma occurs_twice: "\<exists>pre mid post. a @ n @ b @ l @ c @ l @ d = pre @ l @ mid @ l @ post"
  by (metis append.assoc)

lemma text_body_link: "\<exists>pre post. text_body name link = pre @ link @ post"
  unfolding text_body_def by (rule occurs_once)

lemma html_body_link: "\<exists>pre mid post. html_body name link = pre @ link @ mid @ link @ post"
  unfolding html_body_def by (rule occurs_twice)

lemma percent_encoding_a_at_b: "percent_encoding (lit ''a@b.com'') = Some (lit ''a%40b.com'')"
  by (simp add: percent_encoding_def lit_def percent_encoded_def unreserved_ranges utf8_def
      percent_escape_def)

lemma percent_encoding_beyond_ascii:
  "percent_encoding [0xE9] = Some (lit ''%C3%A9'')"
  "percent_encoding [0x20AC] = Some (lit ''%E2%82%AC'')"
  "percent_encoding [0xD83D, 0xDE00] = Some (lit ''%F0%9F%98%80'')"
  by (simp_all add: percent_encoding_def lit_def percent_encoded_def unreserved_ranges utf8_def
      percent_escape_def)

lemma configured_not_duplicate:
  "\<not> fst (checkDuplicateEmail configured_env (JStr (lit ''a@b.com'')) quiet_world)"
  by (simp add: checkDuplicateEmail_eq quiet_world_def)

section \<open>Properties of the handler\<close>

subsection \<open>Malformed events\<close>

text \<open>
  Claim C7. When reading and parsing the message of the event throws, because the
  envelope lacks a part on the way to \<^verbatim>\<open>Records[0].Sns.Message\<close> or because the message is
  not JSON, the handler ends with that error and the world is as it was before: no query
  was issued, no message was sent and nothing was put.
\<close>

theorem malformed_event_fails:
  assumes "sns_message rt event = Inl err"
  shows "handler env rt event w = (Inl err, w) \<and>
         query_commands (trace (snd (handler env rt event w))) = query_commands (trace w) \<and>
         send_commands (trace (snd (handler env rt event w))) = send_commands (trace w) \<and>
         put_commands (trace (snd (handler env rt event w))) = put_commands (trace w) \<and>
         outbox (snd (handler env rt event w)) = outbox w \<and>
         tables (snd (handler env rt event w)) = tables w"
  using assms by (simp add: handler_eq event_intake_def)

theorem malformed_event_fails_witness:
  "sns_message example_runtime (sns_event [sns_record (lit ''not json'')]) = Inl SyntaxError \<and>
   handler example_env example_runtime (sns_event [sns_record (lit ''not json'')]) quiet_world =
     (Inl SyntaxError, quiet_world) \<and>
   sns_message example_runtime (sns_event []) = Inl TypeError \<and>
   handler example_env example_runtime (sns_event []) quiet_world = (Inl TypeError, quiet_world) \<and>
   sns_message example_runtime (JObj []) = Inl TypeError \<and>
   handler example_env example_runtime (JObj []) quiet_world = (Inl TypeError, quiet_world)"
proof -
  have a: "sns_message example_runtime (sns_event [sns_record (lit ''not json'')]) =
             Inl SyntaxError"
    by (simp add: sns_message_sns_event example_runtime_def john_doe_text_def john_roe_text_def
        lit_def)
  have b: "sns_message example_runtime (sns_event []) = Inl TypeError"
    by (simp add: sns_message_def sns_event_def)
  have c: "sns_message example_runtime (JObj []) = Inl TypeError"
    by (simp add: sns_message_def)
  show ?thesis
    using malformed_event_fails [OF a] malformed_event_fails [OF b] malformed_event_fails [OF c]
      a b c by simp
qed

subsection \<open>Duplicates\<close>

text \<open>
  Claim C2, as amended. When the event is taken in, the query of the duplicate guard
  succeeds and the table holds an item under the address of the event, the handler returns
  status 200 with the message \<^verbatim>\<open>Email already sent\<close>, and all it has done is that one
  query: no message was handed to the mail service or accepted by it, no put was issued,
  and the table is as it was. (The claim as first stated asks nothing of the query.)
\<close>

theorem duplicate_is_skipped:
  assumes "event_intake rt event = Inr (email, firstName, lastName)"
    and "query_fault w (checkDuplicateEmail_params env email) = None"
    and "tables w (DYNAMODB_TABLE env) email = Some item"
  shows "handler env rt event w =
           (Inr \<lparr>statusCode = 200, body = lit ''{\"message\":\"Email already sent\"}''\<rparr>,
            w\<lparr>trace := trace w @ [QueryCommand (checkDuplicateEmail_params env email)]\<rparr>) \<and>
         outbox (snd (handler env rt event w)) = outbox w \<and>
         tables (snd (handler env rt event w)) = tables w \<and>
         send_commands (trace (snd (handler env rt event w))) = send_commands (trace w) \<and>
         put_commands (trace (snd (handler env rt event w))) = put_commands (trace w)"
  using assms by (simp add: handler_eq JSON_stringify_message_def lit_def)

text \<open>
  The witness is a redelivery: the example event is handled twice, the second time in the
  world that the first invocation has left.
\<close>

theorem duplicate_is_skipped_witness:
  "event_intake example_runtime (sns_event [sns_record john_doe_text]) =
     Inr (JStr (lit ''a@b.com''), JStr (lit ''John''), JStr (lit ''Doe'')) \<and>
   query_fault
     (snd (handler example_env example_runtime (sns_event [sns_record john_doe_text])
             quiet_world))
     (checkDuplicateEmail_params example_env (JStr (lit ''a@b.com''))) = None \<and>
   tables
     (snd (handler example_env example_runtime (sns_event [sns_record john_doe_text])
             quiet_world))
     (DYNAMODB_TABLE example_env) (JStr (lit ''a@b.com'')) = Some example_item \<and>
   fst (handler example_env example_runtime (sns_event [sns_record john_doe_text])
          (snd (handler example_env example_runtime (sns_event [sns_record john_doe_text])
                  quiet_world))) =
     Inr \<lparr>statusCode = 200, body = lit ''{\"message\":\"Email already sent\"}''\<rparr> \<and>
   outbox (snd (handler example_env example_runtime (sns_event [sns_record john_doe_text])
     (snd (handler example_env example_runtime (sns_event [sns_record john_doe_text])
             quiet_world)))) = [example_message]"
proof -
  let ?w = "snd (handler example_env example_runtime (sns_event [sns_record john_doe_text])
                   quiet_world)"
  have q: "query_fault ?w (checkDuplicateEmail_params example_env (JStr (lit ''a@b.com''))) =
             None"
    unfolding handler_john_doe_quiet by (simp add: quiet_world_def)
  have t: "tables ?w (DYNAMODB_TABLE example_env) (JStr (lit ''a@b.com'')) = Some example_item"
    by (simp add: handler_john_doe_quiet)
  have o: "outbox ?w = [example_message]"
    by (simp add: handler_john_doe_quiet)
  show ?thesis
    using duplicate_is_skipped [OF intake_john_doe q t] intake_john_doe q t o by simp
qed

text \<open>
  Claim C2 as first stated, for every event whose address has an item in the table, fails
  where the query of the guard fails: the catch clause of \<^verbatim>\<open>checkDuplicateEmail\<close> answers
  \<^verbatim>\<open>false\<close> (``fail open''), so the handler sends the message and writes the item again,
  although the table holds an item under the address.
\<close>

theorem duplicate_is_skipped_counterexample:
  "tables recorded_store_down_world (DYNAMODB_TABLE example_env) (JStr (lit ''a@b.com'')) =
     Some example_item \<and>
   fst (handler example_env example_runtime (sns_event [sns_record john_doe_text])
          recorded_store_down_world) =
     Inr \<lparr>statusCode = 200, body = lit ''{\"message\":\"Email sent successfully\"}''\<rparr> \<and>
   fst (handler example_env example_runtime (sns_event [sns_record john_doe_text])
          recorded_store_down_world) \<noteq>
     Inr \<lparr>statusCode = 200, body = lit ''{\"message\":\"Email already sent\"}''\<rparr> \<and>
   outbox (snd (handler example_env example_runtime (sns_event [sns_record john_doe_text])
                  recorded_store_down_world)) = [example_message] \<and>
   send_commands (trace (snd (handler example_env example_runtime
     (sns_event [sns_record john_doe_text]) recorded_store_down_world))) = [example_message] \<and>
   map Item (put_commands (trace (snd (handler example_env example_runtime
     (sns_event [sns_record john_doe_text]) recorded_store_down_world)))) = [example_item]"
proof -
  have h: "handler example_env example_runtime (sns_event [sns_record john_doe_text])
             recorded_store_down_world =
           (Inr \<lparr>statusCode = 200,
                  body = JSON_stringify_message (lit ''Email sent successfully'')\<rparr>,
            recorded_store_down_world
              \<lparr>trace := [QueryCommand (checkDuplicateEmail_params example_env
                                          (JStr (lit ''a@b.com''))),
                         SendEmailCommand example_message,
                         PutCommand \<lparr>Put_TableName = lit ''EmailVerificationTracking'',
                                      Item = example_item\<rparr>],
               drawn := 1,
               outbox := [example_message],
               ticks := 2,
               tables := (tables recorded_store_down_world)(DYNAMODB_TABLE example_env :=
                           (tables recorded_store_down_world (DYNAMODB_TABLE example_env))
                             (JStr (lit ''a@b.com'') \<mapsto> example_item))\<rparr>)"
    by (simp add: handler_eq intake_john_doe recorded_store_down_world_def store_down_world_def
        quiet_world_def example_link_eq Let_def example_message_def example_put)
  have t: "tables recorded_store_down_world (DYNAMODB_TABLE example_env)
             (JStr (lit ''a@b.com'')) = Some example_item"
    by (simp add: recorded_store_down_world_def)
  have b: "lit ''{\"message\":\"Email sent successfully\"}'' \<noteq>
           lit ''{\"message\":\"Email already sent\"}''"
    by (simp add: lit_def)
  show ?thesis
    unfolding h using t b
    by (simp add: JSON_stringify_message_def lit_append [symmetric])
qed

subsection \<open>A failed duplicate check\<close>

text \<open>
  Claim C3. When the query of the duplicate guard fails, the guard answers \<open>False\<close> and
  does not throw. The handler goes on as for an address without an item: where the link
  and the greeting can be rendered, it hands the message to the mail service, and its
  outcome is decided by the send and the put alone.
\<close>

theorem duplicate_check_fails_open:
  assumes "event_intake rt event = Inr (email, firstName, lastName)"
    and "query_fault w (checkDuplicateEmail_params env email) = Some err"
    and "verification_link env rt email (uuids w (drawn w)) = Inr link"
    and "ToString (Number_toString rt) firstName = Inr name"
  shows "checkDuplicateEmail env email w =
           (False, w\<lparr>trace := trace w @ [QueryCommand (checkDuplicateEmail_params env email)]\<rparr>) \<and>
         send_commands (trace (snd (handler env rt event w))) =
           send_commands (trace w) @ [sendVerificationEmail_params env email name link] \<and>
         fst (handler env rt event w) =
           (case send_fault w (sendVerificationEmail_params env email name link) of
              Some error \<Rightarrow> Inl error
            | None \<Rightarrow>
                (case put_fault w (trackEmailSent_params env email (uuids w (drawn w))
                        (clock w (ticks w)) (clock w (Suc (ticks w)))) of
                   Some error \<Rightarrow> Inl error
                 | None \<Rightarrow> Inr \<lparr>statusCode = 200,
                                  body = lit ''{\"message\":\"Email sent successfully\"}''\<rparr>))"
  using assms
  by (simp add: checkDuplicateEmail_eq handler_eq Let_def JSON_stringify_message_def lit_def
      split: option.splits)

theorem duplicate_check_fails_open_witness:
  "event_intake example_runtime (sns_event [sns_record john_doe_text]) =
     Inr (JStr (lit ''a@b.com''), JStr (lit ''John''), JStr (lit ''Doe'')) \<and>
   query_fault store_down_world
     (checkDuplicateEmail_params example_env (JStr (lit ''a@b.com''))) =
     Some (ServiceError (lit ''ProvisionedThroughputExceededException'')) \<and>
   verification_link example_env example_runtime (JStr (lit ''a@b.com''))
     (uuids store_down_world (drawn store_down_world)) = Inr example_link \<and>
   ToString (Number_toString example_runtime) (JStr (lit ''John'')) = Inr (lit ''John'') \<and>
   fst (checkDuplicateEmail example_env (JStr (lit ''a@b.com'')) store_down_world) = False \<and>
   send_commands (trace (snd (handler example_env example_runtime
     (sns_event [sns_record john_doe_text]) store_down_world))) = [example_message] \<and>
   fst (handler example_env example_runtime (sns_event [sns_record john_doe_text])
          store_down_world) =
     Inr \<lparr>statusCode = 200, body = lit ''{\"message\":\"Email sent successfully\"}''\<rparr>"
proof -
  have q: "query_fault store_down_world
             (checkDuplicateEmail_params example_env (JStr (lit ''a@b.com''))) =
           Some (ServiceError (lit ''ProvisionedThroughputExceededException''))"
    by (simp add: store_down_world_def quiet_world_def)
  have u: "uuids store_down_world (drawn store_down_world) = example_uuid"
    by (simp add: store_down_world_def quiet_world_def)
  have l: "verification_link example_env example_runtime (JStr (lit ''a@b.com''))
             (uuids store_down_world (drawn store_down_world)) = Inr example_link"
    by (simp only: u example_link_eq)
  have n: "ToString (Number_toString example_runtime) (JStr (lit ''John'')) = Inr (lit ''John'')"
    by simp
  have f: "send_fault store_down_world example_message = None"
    "put_fault store_down_world p = None" "trace store_down_world = []" for p
    by (simp_all add: store_down_world_def quiet_world_def)
  show ?thesis
    using duplicate_check_fails_open [OF intake_john_doe q l n] intake_john_doe q l n f
    by (simp add: example_message_def)
qed

subsection \<open>A failed dispatch\<close>

text \<open>
  Claim C4. When the event is taken in, the guard answers that it is no duplicate, the
  link is built and \<^verbatim>\<open>sendVerificationEmail\<close> ends with an error, then the handler ends with
  that error, no put has been issued, the table is as it was and the outbox has not grown.
\<close>

theorem failed_dispatch_writes_nothing:
  assumes "event_intake rt event = Inr (email, firstName, lastName)"
    and "\<not> fst (checkDuplicateEmail env email w)"
    and "verification_link env rt email (fst (uuidv4 (snd (checkDuplicateEmail env email w)))) =
           Inr link"
    and "fst (sendVerificationEmail env rt email firstName link
                (snd (uuidv4 (snd (checkDuplicateEmail env email w))))) = Inl err"
  shows "fst (handler env rt event w) = Inl err \<and>
         tables (snd (handler env rt event w)) = tables w \<and>
         put_commands (trace (snd (handler env rt event w))) = put_commands (trace w) \<and>
         outbox (snd (handler env rt event w)) = outbox w"
  using assms
  by (auto simp: handler_def sendVerificationEmail_eq checkDuplicateEmail_eq uuidv4_def Let_def
      split: sum.splits option.splits prod.splits)

theorem failed_dispatch_writes_nothing_witness:
  "event_intake example_runtime (sns_event [sns_record john_doe_text]) =
     Inr (JStr (lit ''a@b.com''), JStr (lit ''John''), JStr (lit ''Doe'')) \<and>
   \<not> fst (checkDuplicateEmail example_env (JStr (lit ''a@b.com'')) mail_down_world) \<and>
   verification_link example_env example_runtime (JStr (lit ''a@b.com''))
     (fst (uuidv4 (snd (checkDuplicateEmail example_env (JStr (lit ''a@b.com''))
        mail_down_world)))) = Inr example_link \<and>
   fst (sendVerificationEmail example_env example_runtime (JStr (lit ''a@b.com''))
          (JStr (lit ''John'')) example_link
          (snd (uuidv4 (snd (checkDuplicateEmail example_env (JStr (lit ''a@b.com''))
             mail_down_world))))) = Inl (ServiceError (lit ''MessageRejected'')) \<and>
   fst (handler example_env example_runtime (sns_event [sns_record john_doe_text])
          mail_down_world) = Inl (ServiceError (lit ''MessageRejected'')) \<and>
   put_commands (trace (snd (handler example_env example_runtime
     (sns_event [sns_record john_doe_text]) mail_down_world))) = []"
proof -
  let ?w = "snd (checkDuplicateEmail example_env (JStr (lit ''a@b.com'')) mail_down_world)"
  have d: "\<not> fst (checkDuplicateEmail example_env (JStr (lit ''a@b.com'')) mail_down_world)"
    by (simp add: mail_down_not_duplicate)
  have u: "fst (uuidv4 ?w) = example_uuid"
    by (simp add: checkDuplicateEmail_eq uuidv4_def mail_down_world_def quiet_world_def)
  have l: "verification_link example_env example_runtime (JStr (lit ''a@b.com''))
             (fst (uuidv4 ?w)) = Inr example_link"
    by (simp only: u example_link_eq)
  have s: "fst (sendVerificationEmail example_env example_runtime (JStr (lit ''a@b.com''))
             (JStr (lit ''John'')) example_link (snd (uuidv4 ?w))) =
           Inl (ServiceError (lit ''MessageRejected''))"
    by (simp add: sendVerificationEmail_eq checkDuplicateEmail_eq uuidv4_def Let_def
        mail_down_world_def quiet_world_def)
  have t: "put_commands (trace mail_down_world) = []"
    by (simp add: mail_down_world_def quiet_world_def)
  show ?thesis
    using failed_dispatch_writes_nothing [OF intake_john_doe d l s] intake_john_doe d l s t
    by simp
qed

subsection \<open>The token\<close>

text \<open>
  Claim C1, at an event whose message carries the token \<^verbatim>\<open>test-uuid\<close>, in the quiet world
  where \<^verbatim>\<open>uuidv4\<close> yields \<^verbatim>\<open>9b1deb4d-3b7d-4bad-9bdf-2b0d7b3dcb6d\<close>: the handler reports
  success, and both the item in the table and the link in the message carry the generated
  value, not the token of the event. The handler never reads the \<^verbatim>\<open>token\<close> property,
  whereas the README of the repository says of the function that it ``uses token from
  webapp (does NOT generate new token)''.
\<close>

theorem supplied_token_is_ignored:
  "Get john_doe (lit ''token'') = Inr (JStr (lit ''test-uuid'')) \<and>
   fst (handler example_env example_runtime (sns_event [sns_record john_doe_text]) quiet_world) =
     Inr \<lparr>statusCode = 200, body = lit ''{\"message\":\"Email sent successfully\"}''\<rparr> \<and>
   tables (snd (handler example_env example_runtime (sns_event [sns_record john_doe_text])
                  quiet_world))
     (lit ''EmailVerificationTracking'') (JStr (lit ''a@b.com'')) = Some example_item \<and>
   Item_token example_item = lit ''9b1deb4d-3b7d-4bad-9bdf-2b0d7b3dcb6d'' \<and>
   Item_token example_item \<noteq> lit ''test-uuid'' \<and>
   map Text_Data (outbox (snd (handler example_env example_runtime
                                 (sns_event [sns_record john_doe_text]) quiet_world))) =
     [text_body (lit ''John'')
        (lit ''https://dev.ritimoradiya.me/v1/user/verify?email=a%40b.com&token=9b1deb4d-3b7d-4bad-9bdf-2b0d7b3dcb6d'')]"
proof -
  have "Get john_doe (lit ''token'') = Inr (JStr (lit ''test-uuid''))"
    by (simp add: john_doe_def lit_def)
  moreover have "Item_token example_item \<noteq> lit ''test-uuid''"
    by (simp add: example_item_def example_uuid_def lit_def)
  moreover have "DYNAMODB_TABLE example_env = lit ''EmailVerificationTracking''"
    by (simp add: DYNAMODB_TABLE_def or_default_def example_env_def)
  ultimately show ?thesis
    by (simp add: handler_john_doe_quiet JSON_stringify_message_def lit_append [symmetric]
        example_message_def sendVerificationEmail_params_def example_link_def
        example_item_def example_uuid_def)
qed

subsection \<open>The tracking item\<close>

text \<open>
  Claim C5. In an invocation that is no duplicate and in which the message is sent and the
  put is accepted, exactly one put is issued, and the item it writes under the address has
  the four attributes \<^verbatim>\<open>email\<close>, \<^verbatim>\<open>token\<close>, \<^verbatim>\<open>sentAt\<close> and \<^verbatim>\<open>ttl\<close>: the address, the
  generated token, the ISO rendering of the clock as read for \<^verbatim>\<open>sentAt\<close>, and for the
  expiry attribute \<^verbatim>\<open>ttl\<close> the clock as read next, in whole seconds, plus 86400 seconds
  (24 hours).
\<close>

theorem tracking_record_written:
  assumes "event_intake rt event = Inr (email, firstName, lastName)"
    and "\<not> fst (checkDuplicateEmail env email w)"
    and "verification_link env rt email (uuids w (drawn w)) = Inr link"
    and "ToString (Number_toString rt) firstName = Inr name"
    and "send_fault w (sendVerificationEmail_params env email name link) = None"
    and "put_fault w (trackEmailSent_params env email (uuids w (drawn w))
           (clock w (ticks w)) (clock w (Suc (ticks w)))) = None"
  shows "put_commands (trace (snd (handler env rt event w))) =
           put_commands (trace w) @
           [\<lparr>Put_TableName = DYNAMODB_TABLE env,
             Item = \<lparr>Item_email = email,
                     Item_token = uuids w (drawn w),
                     Item_sentAt = Date_toISOString (clock w (ticks w)),
                     Item_ttl = clock w (Suc (ticks w)) div 1000 + 86400\<rparr>\<rparr>] \<and>
         tables (snd (handler env rt event w)) (DYNAMODB_TABLE env) email =
           Some \<lparr>Item_email = email,
                 Item_token = uuids w (drawn w),
                 Item_sentAt = Date_toISOString (clock w (ticks w)),
                 Item_ttl = clock w (Suc (ticks w)) div 1000 + 86400\<rparr>"
  using assms
  by (simp add: handler_eq checkDuplicateEmail_eq Let_def trackEmailSent_params_def)

theorem tracking_record_written_witness:
  "event_intake example_runtime (sns_event [sns_record john_doe_text]) =
     Inr (JStr (lit ''a@b.com''), JStr (lit ''John''), JStr (lit ''Doe'')) \<and>
   \<not> fst (checkDuplicateEmail example_env (JStr (lit ''a@b.com'')) quiet_world) \<and>
   verification_link example_env example_runtime (JStr (lit ''a@b.com''))
     (uuids quiet_world (drawn quiet_world)) = Inr example_link \<and>
   ToString (Number_toString example_runtime) (JStr (lit ''John'')) = Inr (lit ''John'') \<and>
   send_fault quiet_world example_message = None \<and>
   put_fault quiet_world (trackEmailSent_params example_env (JStr (lit ''a@b.com''))
     (uuids quiet_world (drawn quiet_world)) (clock quiet_world (ticks quiet_world))
     (clock quiet_world (Suc (ticks quiet_world)))) = None \<and>
   tables (snd (handler example_env example_runtime (sns_event [sns_record john_doe_text])
                  quiet_world)) (DYNAMODB_TABLE example_env) (JStr (lit ''a@b.com'')) =
     Some \<lparr>Item_email = JStr (lit ''a@b.com''),
           Item_token = lit ''9b1deb4d-3b7d-4bad-9bdf-2b0d7b3dcb6d'',
           Item_sentAt = lit ''2023-11-14T22:13:20.000Z'',
           Item_ttl = 1700086400\<rparr>"
proof -
  have u: "uuids quiet_world (drawn quiet_world) = example_uuid"
    by (simp add: quiet_world_def)
  have l: "verification_link example_env example_runtime (JStr (lit ''a@b.com''))
             (uuids quiet_world (drawn quiet_world)) = Inr example_link"
    by (simp only: u example_link_eq)
  have n: "ToString (Number_toString example_runtime) (JStr (lit ''John'')) = Inr (lit ''John'')"
    by simp
  have s: "send_fault quiet_world
             (sendVerificationEmail_params example_env (JStr (lit ''a@b.com'')) (lit ''John'')
                example_link) = None"
    by (simp add: quiet_world_def)
  have p: "put_fault quiet_world (trackEmailSent_params example_env (JStr (lit ''a@b.com''))
             (uuids quiet_world (drawn quiet_world)) (clock quiet_world (ticks quiet_world))
             (clock quiet_world (Suc (ticks quiet_world)))) = None"
    by (simp add: quiet_world_def)
  have c: "clock quiet_world (ticks quiet_world) = 1700000000000"
    "clock quiet_world (Suc (ticks quiet_world)) = 1700000000001"
    by (simp_all add: quiet_world_def)
  show ?thesis
    using tracking_record_written [OF intake_john_doe quiet_not_duplicate l n s p]
      intake_john_doe quiet_not_duplicate l n s p
    by (simp add: u c example_date example_uuid_def example_message_def)
qed

subsection \<open>The verification link\<close>

text \<open>
  Claim C6. In an invocation that is no duplicate, for every address that is a well-formed
  string, the message handed to the mail service has as its text body and as its HTML body
  the two templates with one and the same link spliced in, once in the text and twice in
  the HTML. The link is \<^verbatim>\<open>https://\<close>, the configured domain, \<^verbatim>\<open>/v1/user/verify?email=\<close>,
  the percent-encoding of the address, \<^verbatim>\<open>&token=\<close> and the token. The configured domain
  is the value of the variable \<^verbatim>\<open>DOMAIN\<close> of the environment, or \<^verbatim>\<open>dev.ritimoradiya.me\<close>
  when the variable is unset or empty. The percent-encoding is the one written out above,
  not the model of \<^verbatim>\<open>encodeURIComponent\<close>; it turns \<^verbatim>\<open>a@b.com\<close> into \<^verbatim>\<open>a%40b.com\<close>.
\<close>

theorem verification_link_format:
  assumes "event_intake rt event = Inr (JStr address, firstName, lastName)"
    and "\<not> fst (checkDuplicateEmail env (JStr address) w)"
    and "percent_encoding address = Some encoded"
    and "ToString (Number_toString rt) firstName = Inr name"
    and "env_DOMAIN env = Some domain \<and> domain \<noteq> [] \<or>
         (env_DOMAIN env = None \<or> env_DOMAIN env = Some []) \<and> domain = lit ''dev.ritimoradiya.me''"
    and "link = lit ''https://'' @ domain @ lit ''/v1/user/verify?email='' @ encoded @
                lit ''&token='' @ uuids w (drawn w)"
  shows "(\<exists>msg. send_commands (trace (snd (handler env rt event w))) =
                  send_commands (trace w) @ [msg] \<and>
                Text_Data msg = text_body name link \<and> Html_Data msg = html_body name link) \<and>
         (\<exists>pre post. text_body name link = pre @ link @ post) \<and>
         (\<exists>pre mid post. html_body name link = pre @ link @ mid @ link @ post) \<and>
         percent_encoding (lit ''a@b.com'') = Some (lit ''a%40b.com'') \<and>
         percent_encoding [0xE9] = Some (lit ''%C3%A9'') \<and>
         percent_encoding [0x20AC] = Some (lit ''%E2%82%AC'') \<and>
         percent_encoding [0xD83D, 0xDE00] = Some (lit ''%F0%9F%98%80'')"
proof -
  have d: "DOMAIN env = domain"
    using assms(5) by (auto simp: DOMAIN_def or_default_def)
  have l: "verification_link env rt (JStr address) (uuids w (drawn w)) = Inr link"
    using assms(3,6) d
    by (simp add: verification_link_def encodeURIComponent_def Encode_percent_encoding)
  have m: "\<exists>msg. send_commands (trace (snd (handler env rt event w))) =
                  send_commands (trace w) @ [msg] \<and>
                Text_Data msg = text_body name link \<and> Html_Data msg = html_body name link"
    using assms(1,2,4) l
    by (simp add: handler_eq checkDuplicateEmail_eq Let_def sendVerificationEmail_params_def
        split: option.splits)
  show ?thesis
    using m text_body_link html_body_link percent_encoding_a_at_b percent_encoding_beyond_ascii
    by simp
qed

text \<open>The witness has the domain once configured and once left to its default.\<close>

theorem verification_link_format_witness:
  "event_intake example_runtime (sns_event [sns_record john_doe_text]) =
     Inr (JStr (lit ''a@b.com''), JStr (lit ''John''), JStr (lit ''Doe'')) \<and>
   \<not> fst (checkDuplicateEmail configured_env (JStr (lit ''a@b.com'')) quiet_world) \<and>
   percent_encoding (lit ''a@b.com'') = Some (lit ''a%40b.com'') \<and>
   ToString (Number_toString example_runtime) (JStr (lit ''John'')) = Inr (lit ''John'') \<and>
   env_DOMAIN configured_env = Some (lit ''demo.example.com'') \<and>
   lit ''demo.example.com'' \<noteq> [] \<and>
   configured_link =
     lit ''https://'' @ lit ''demo.example.com'' @ lit ''/v1/user/verify?email='' @
     lit ''a%40b.com'' @ lit ''&token='' @ uuids quiet_world (drawn quiet_world) \<and>
   (\<exists>msg. send_commands (trace (snd (handler configured_env example_runtime
              (sns_event [sns_record john_doe_text]) quiet_world))) = [msg] \<and>
          Text_Data msg = text_body (lit ''John'') configured_link \<and>
          Html_Data msg = html_body (lit ''John'') configured_link) \<and>
   env_DOMAIN example_env = None \<and>
   example_link =
     lit ''https://'' @ lit ''dev.ritimoradiya.me'' @ lit ''/v1/user/verify?email='' @
     lit ''a%40b.com'' @ lit ''&token='' @ uuids quiet_world (drawn quiet_world) \<and>
   (\<exists>msg. send_commands (trace (snd (handler example_env example_runtime
              (sns_event [sns_record john_doe_text]) quiet_world))) = [msg] \<and>
          Text_Data msg = text_body (lit ''John'') example_link \<and>
          Html_Data msg = html_body (lit ''John'') example_link)"
proof -
  have n: "ToString (Number_toString example_runtime) (JStr (lit ''John'')) = Inr (lit ''John'')"
    by simp
  have c: "env_DOMAIN configured_env = Some (lit ''demo.example.com'')"
    "lit ''demo.example.com'' \<noteq> []"
    by (simp_all add: configured_env_def lit_def)
  then have c': "env_DOMAIN configured_env = Some (lit ''demo.example.com'') \<and>
      lit ''demo.example.com'' \<noteq> [] \<or>
      (env_DOMAIN configured_env = None \<or> env_DOMAIN configured_env = Some []) \<and>
      lit ''demo.example.com'' = lit ''dev.ritimoradiya.me''"
    by blast
  have k: "configured_link =
     lit ''https://'' @ lit ''demo.example.com'' @ lit ''/v1/user/verify?email='' @
     lit ''a%40b.com'' @ lit ''&token='' @ uuids quiet_world (drawn quiet_world)"
    by (simp add: configured_link_def quiet_world_def example_uuid_def lit_def)
  have e: "env_DOMAIN example_env = None"
    by (simp add: example_env_def)
  then have e': "env_DOMAIN example_env = Some (lit ''dev.ritimoradiya.me'') \<and>
      lit ''dev.ritimoradiya.me'' \<noteq> [] \<or>
      (env_DOMAIN example_env = None \<or> env_DOMAIN example_env = Some []) \<and>
      lit ''dev.ritimoradiya.me'' = lit ''dev.ritimoradiya.me''"
    by blast
  have j: "example_link =
     lit ''https://'' @ lit ''dev.ritimoradiya.me'' @ lit ''/v1/user/verify?email='' @
     lit ''a%40b.com'' @ lit ''&token='' @ uuids quiet_world (drawn quiet_world)"
    by (simp add: example_link_def quiet_world_def example_uuid_def lit_def)
  have t: "send_commands (trace quiet_world) = []"
    by (simp add: quiet_world_def)
  note r1 = verification_link_format
      [OF intake_john_doe configured_not_duplicate percent_encoding_a_at_b n c' k,
       unfolded t append_Nil, THEN conjunct1]
  note r2 = verification_link_format
      [OF intake_john_doe quiet_not_duplicate percent_encoding_a_at_b n e' j,
       unfolded t append_Nil, THEN conjunct1]
  show ?thesis
    using r1 r2 intake_john_doe [of "[]"] configured_not_duplicate percent_encoding_a_at_b n c k e j
    by (intro conjI)
qed

subsection \<open>The last name\<close>

text \<open>
  Claim C9. When the messages of two events are objects that agree on every property but
  \<^verbatim>\<open>lastName\<close>, the handler returns the same result and leaves the same world for both:
  the same query, the same message, the same item.
\<close>

theorem lastName_is_unused:
  assumes "sns_message rt event1 = Inr (JObj kvs1)"
    and "sns_message rt event2 = Inr (JObj kvs2)"
    and "\<forall>k. k \<noteq> lit ''lastName'' \<longrightarrow> map_of kvs1 k = map_of kvs2 k"
  shows "handler env rt event1 w = handler env rt event2 w"
proof -
  have "map_of kvs1 (lit ''email'') = map_of kvs2 (lit ''email'')"
    "map_of kvs1 (lit ''firstName'') = map_of kvs2 (lit ''firstName'')"
    using assms(3) key_names_differ by blast+
  then show ?thesis
    using assms(1,2)
    by (simp add: handler_eq event_intake_def bindE_def split: sum.splits)
qed

theorem lastName_is_unused_witness:
  "sns_message example_runtime (sns_event [sns_record john_doe_text]) =
     Inr (JObj [(lit ''email'', JStr (lit ''a@b.com'')),
                (lit ''firstName'', JStr (lit ''John'')),
                (lit ''lastName'', JStr (lit ''Doe'')),
                (lit ''token'', JStr (lit ''test-uuid''))]) \<and>
   sns_message example_runtime (sns_event [sns_record john_roe_text]) =
     Inr (JObj [(lit ''email'', JStr (lit ''a@b.com'')),
                (lit ''firstName'', JStr (lit ''John'')),
                (lit ''lastName'', JStr (lit ''Roe'')),
                (lit ''token'', JStr (lit ''test-uuid''))]) \<and>
   (\<forall>k. k = lit ''lastName'' \<or>
        map_of [(lit ''email'', JStr (lit ''a@b.com'')),
                (lit ''firstName'', JStr (lit ''John'')),
                (lit ''lastName'', JStr (lit ''Doe'')),
                (lit ''token'', JStr (lit ''test-uuid''))] k =
        map_of [(lit ''email'', JStr (lit ''a@b.com'')),
                (lit ''firstName'', JStr (lit ''John'')),
                (lit ''lastName'', JStr (lit ''Roe'')),
                (lit ''token'', JStr (lit ''test-uuid''))] k) \<and>
   handler example_env example_runtime (sns_event [sns_record john_doe_text]) quiet_world =
   handler example_env example_runtime (sns_event [sns_record john_roe_text]) quiet_world"
proof -
  have a: "sns_message example_runtime (sns_event [sns_record john_doe_text]) =
             Inr (JObj [(lit ''email'', JStr (lit ''a@b.com'')),
                (lit ''firstName'', JStr (lit ''John'')),
                (lit ''lastName'', JStr (lit ''Doe'')),
                (lit ''token'', JStr (lit ''test-uuid''))])"
    by (simp add: sns_message_sns_event example_runtime_def john_doe_def)
  have b: "sns_message example_runtime (sns_event [sns_record john_roe_text]) =
             Inr (JObj [(lit ''email'', JStr (lit ''a@b.com'')),
                (lit ''firstName'', JStr (lit ''John'')),
                (lit ''lastName'', JStr (lit ''Roe'')),
                (lit ''token'', JStr (lit ''test-uuid''))])"
    by (simp add: sns_message_sns_event example_runtime_def john_roe_def john_texts_differ)
  have c: "\<forall>k. k \<noteq> lit ''lastName'' \<longrightarrow>
        map_of [(lit ''email'', JStr (lit ''a@b.com'')),
                (lit ''firstName'', JStr (lit ''John'')),
                (lit ''lastName'', JStr (lit ''Doe'')),
                (lit ''token'', JStr (lit ''test-uuid''))] k =
        map_of [(lit ''email'', JStr (lit ''a@b.com'')),
                (lit ''firstName'', JStr (lit ''John'')),
                (lit ''lastName'', JStr (lit ''Roe'')),
                (lit ''token'', JStr (lit ''test-uuid''))] k"
    by simp
  show ?thesis
    using lastName_is_unused [OF a b c] a b c by blast
qed

subsection \<open>The records of the envelope\<close>

text \<open>
  Claim C10. Two events whose \<^verbatim>\<open>Records\<close> arrays begin with the same record are handled
  alike, whatever follows the first record; and an invocation hands at most one message to
  the mail service, has at most one message accepted and issues at most one put.
\<close>

theorem only_first_record_is_read:
  assumes "Get event1 (lit ''Records'') = Inr (JArr (r # rest1))"
    and "Get event2 (lit ''Records'') = Inr (JArr (r # rest2))"
  shows "handler env rt event1 w = handler env rt event2 w \<and>
         length (send_commands (trace (snd (handler env rt event1 w)))) \<le>
           Suc (length (send_commands (trace w))) \<and>
         length (outbox (snd (handler env rt event1 w))) \<le> Suc (length (outbox w)) \<and>
         length (put_commands (trace (snd (handler env rt event1 w)))) \<le>
           Suc (length (put_commands (trace w)))"
proof -
  have "sns_message rt event1 = sns_message rt event2"
    using assms by (simp add: sns_message_def)
  then have "handler env rt event1 w = handler env rt event2 w"
    by (simp add: handler_eq event_intake_def)
  moreover have "length (send_commands (trace (snd (handler env rt event1 w)))) \<le>
           Suc (length (send_commands (trace w)))"
    by (simp add: handler_eq Let_def split: sum.splits option.splits prod.splits)
  moreover have "length (outbox (snd (handler env rt event1 w))) \<le> Suc (length (outbox w))"
    by (simp add: handler_eq Let_def split: sum.splits option.splits prod.splits)
  moreover have "length (put_commands (trace (snd (handler env rt event1 w)))) \<le>
           Suc (length (put_commands (trace w)))"
    by (simp add: handler_eq Let_def split: sum.splits option.splits prod.splits)
  ultimately show ?thesis by simp
qed

theorem only_first_record_is_read_witness:
  "Get (sns_event [sns_record john_doe_text, sns_record john_roe_text, JNull]) (lit ''Records'') =
     Inr (JArr [sns_record john_doe_text, sns_record john_roe_text, JNull]) \<and>
   Get (sns_event [sns_record john_doe_text]) (lit ''Records'') =
     Inr (JArr [sns_record john_doe_text]) \<and>
   handler example_env example_runtime
     (sns_event [sns_record john_doe_text, sns_record john_roe_text, JNull]) quiet_world =
   handler example_env example_runtime (sns_event [sns_record john_doe_text]) quiet_world \<and>
   send_commands (trace (snd (handler example_env example_runtime
     (sns_event [sns_record john_doe_text, sns_record john_roe_text, JNull]) quiet_world))) =
     [example_message]"
proof -
  have a: "Get (sns_event [sns_record john_doe_text, sns_record john_roe_text, JNull])
             (lit ''Records'') =
           Inr (JArr [sns_record john_doe_text, sns_record john_roe_text, JNull])"
    by (simp add: sns_event_def)
  have b: "Get (sns_event [sns_record john_doe_text]) (lit ''Records'') =
           Inr (JArr [sns_record john_doe_text])"
    by (simp add: sns_event_def)
  have c: "send_commands (trace (snd (handler example_env example_runtime
             (sns_event [sns_record john_doe_text]) quiet_world))) = [example_message]"
    by (simp add: handler_john_doe_quiet)
  show ?thesis
    using only_first_record_is_read [OF a b] a b c by simp
qed

end
